theory Spec2Isabelle
  imports Main "HOL-Library.Multiset" "HOL-Library.Char_ord" "HOL-Library.List_Lexorder"
begin

section \<open>JavaScript built-ins used by server.js\<close>

text \<open>
  Strings are lists of 8-bit characters, read as the UTF-16 code units below 256.
  Numbers are exact integers (the JSON integers a double represents exactly); the
  value NaN is \<open>None\<close> of type \<open>int option\<close>. Arithmetic on them is exact
  in the model. The code computes in doubles, which is the same as long as every value
  stays a safe integer (below \<open>2^53\<close> in magnitude); beyond that \<open>max + 1\<close> and
  \<open>parseInt\<close> round. A theorem whose statement depends on the value of an id that is
  computed or parsed assumes the bound (\<open>isSafeInteger\<close> below). A request field that is
  \<open>undefined\<close> or \<open>null\<close> is \<open>None\<close>: server.js only ever tests
  such a field for truthiness, where the two agree.
\<close>

type_synonym jsnum = "int option"

definition isWhiteSpace :: "char \<Rightarrow> bool" where
  \<comment> \<open>the class \<open>\s\<close> and the characters \<open>trim\<close> strips: TAB, LF, VT, FF, CR, SP, NBSP\<close>
  "isWhiteSpace c = (of_char c \<in> {9, 10, 11, 12, 13, 32, 160 :: nat})"

definition isDigit :: "char \<Rightarrow> bool" where
  \<comment> \<open>the class \<open>\d\<close>\<close>
  "isDigit c = (48 \<le> (of_char c :: nat) \<and> (of_char c :: nat) \<le> 57)"

fun toLowerChar :: "char \<Rightarrow> char" where
  \<comment> \<open>A-Z and the Latin-1 capitals 0xC0-0xDE (but the sign 0xD7) move up by 32: bit 5 is set\<close>
  "toLowerChar (Char b0 b1 b2 b3 b4 b5 b6 b7) =
     (let n = (of_char (Char b0 b1 b2 b3 b4 b5 b6 b7) :: nat) in
      if (65 \<le> n \<and> n \<le> 90) \<or> (192 \<le> n \<and> n \<le> 222 \<and> n \<noteq> 215)
      then Char b0 b1 b2 b3 b4 True b6 b7
      else Char b0 b1 b2 b3 b4 b5 b6 b7)"

definition toLowerCase :: "string \<Rightarrow> string" where
  "toLowerCase s = map toLowerChar s"

definition trim :: "string \<Rightarrow> string" where
  "trim s = rev (dropWhile isWhiteSpace (rev (dropWhile isWhiteSpace s)))"

fun startsWith :: "string \<Rightarrow> string \<Rightarrow> bool" where
  "startsWith s [] = True"
| "startsWith [] (y # ys) = False"
| "startsWith (x # xs) (y # ys) = (x = y \<and> startsWith xs ys)"

fun includesStr :: "string \<Rightarrow> string \<Rightarrow> bool" where
  \<comment> \<open>\<open>s.includes(t)\<close>\<close>
  "includesStr [] t = (t = [])"
| "includesStr (x # xs) t = (startsWith (x # xs) t \<or> includesStr xs t)"

definition digitValue :: "char \<Rightarrow> nat" where
  \<comment> \<open>the value of a digit of a radix up to 36; 36 for any other character\<close>
  "digitValue c =
     (let n = (of_char c :: nat) in
      if 48 \<le> n \<and> n \<le> 57 then n - 48
      else if 97 \<le> n \<and> n \<le> 122 then n - 87
      else if 65 \<le> n \<and> n \<le> 90 then n - 55
      else 36)"

definition radixValue :: "nat \<Rightarrow> string \<Rightarrow> nat" where
  "radixValue r z = foldl (\<lambda>acc c. acc * r + digitValue c) 0 z"

definition parseInt :: "string \<Rightarrow> jsnum" where
  \<comment> \<open>\<open>parseInt(str)\<close> with no radix argument. The value is the exact integer of the
      digits, which is what the code returns when that integer is a safe integer.\<close>
  "parseInt str =
     (let s = dropWhile isWhiteSpace str;
          sign = (if startsWith s ''-'' then - 1 else 1 :: int);
          s = (if startsWith s ''+'' \<or> startsWith s ''-'' then tl s else s);
          hex = (startsWith s ''0x'' \<or> startsWith s ''0X'');
          r = (if hex then 16 else 10);
          s = (if hex then drop 2 s else s);
          z = takeWhile (\<lambda>c. digitValue c < r) s
      in if z = [] then None else Some (sign * int (radixValue r z)))"

definition paramString :: "string option \<Rightarrow> string" where
  \<comment> \<open>the string \<open>parseInt\<close> makes of a query parameter that may be absent\<close>
  "paramString p = (case p of None \<Rightarrow> ''undefined'' | Some s \<Rightarrow> s)"

function natToString :: "nat \<Rightarrow> string" where
  "natToString n =
     (if n < 10 then [''0123456789'' ! n]
      else natToString (n div 10) @ [''0123456789'' ! (n mod 10)])"
  by pat_completeness auto
termination
  by (relation "measure (\<lambda>n. n)") auto

declare natToString.simps [simp del]

definition numToString :: "int \<Rightarrow> string" where
  \<comment> \<open>\<open>String(n)\<close> of an integer\<close>
  "numToString i = (if i < 0 then CHR ''-'' # natToString (nat (- i)) else natToString (nat i))"

definition isSafeInteger :: "int \<Rightarrow> bool" where
  \<comment> \<open>\<open>Number.isSafeInteger\<close>: the integers on which double arithmetic is exact\<close>
  "isSafeInteger n = (\<bar>n\<bar> < 2 ^ 53)"

definition toIntegerOrInfinity :: "jsnum \<Rightarrow> int" where
  "toIntegerOrInfinity n = (case n of None \<Rightarrow> 0 | Some i \<Rightarrow> i)"

definition jsAdd :: "jsnum \<Rightarrow> jsnum \<Rightarrow> jsnum" where
  "jsAdd a b = (case (a, b) of (Some x, Some y) \<Rightarrow> Some (x + y) | _ \<Rightarrow> None)"

definition sliceArr :: "'a list \<Rightarrow> jsnum \<Rightarrow> jsnum \<Rightarrow> 'a list" where
  \<comment> \<open>\<open>xs.slice(start, end)\<close>: a negative index counts from the end, both are clamped\<close>
  "sliceArr xs start end =
     (let len = int (length xs);
          relStart = toIntegerOrInfinity start;
          k = (if relStart < 0 then max (len + relStart) 0 else min relStart len);
          relEnd = toIntegerOrInfinity end;
          final = (if relEnd < 0 then max (len + relEnd) 0 else min relEnd len)
      in take (nat (final - k)) (drop (nat k) xs))"

fun findIndex :: "('a \<Rightarrow> bool) \<Rightarrow> 'a list \<Rightarrow> nat option" where
  \<comment> \<open>\<open>None\<close> is the index -1\<close>
  "findIndex P [] = None"
| "findIndex P (x # xs) =
     (if P x then Some 0 else (case findIndex P xs of None \<Rightarrow> None | Some i \<Rightarrow> Some (Suc i)))"

definition truthyStr :: "string option \<Rightarrow> bool" where
  "truthyStr v = (case v of None \<Rightarrow> False | Some s \<Rightarrow> s \<noteq> [])"

definition truthyNum :: "int option \<Rightarrow> bool" where
  "truthyNum v = (case v of None \<Rightarrow> False | Some n \<Rightarrow> n \<noteq> 0)"

section \<open>Data model\<close>

text \<open>
  A stored book. The timestamps \<open>createdAt\<close> and \<open>updatedAt\<close> are held as the
  milliseconds that \<open>new Date(...)\<close> reads back from the ISO string
  \<open>toISOString()\<close> wrote.
\<close>

record book =
  idB :: int
  title :: string
  author :: string
  genre :: string
  year :: "int option"
  description :: string
  isbn :: string
  createdAt :: nat
  updatedAt :: nat

text \<open>The candidate record of a request body (\<open>bookData\<close>): every field may be missing.\<close>

record bookData =
  titleD :: "string option"
  authorD :: "string option"
  genreD :: "string option"
  yearD :: "int option"
  descriptionD :: "string option"
  isbnD :: "string option"

section \<open>Store\<close>

text \<open>
  The backing file is absent, holds text that \<open>JSON.parse\<close> rejects, or holds the JSON
  array of books that \<open>JSON.stringify\<close> wrote. \<open>writable\<close> says whether
  \<open>fs.writeFile\<close> succeeds; \<open>writes\<close> counts the writes that happened.
\<close>

datatype booksFile = Missing | Unparsable | Stored "book list"

record fs =
  content :: booksFile
  writable :: bool
  writes :: nat

datatype error = IOError | SyntaxError | TypeError

definition readFile :: "fs \<Rightarrow> error + booksFile" where
  "readFile s = (case content s of Missing \<Rightarrow> Inl IOError | f \<Rightarrow> Inr f)"

definition JSON_parse :: "booksFile \<Rightarrow> error + book list" where
  "JSON_parse f = (case f of Stored bs \<Rightarrow> Inr bs | _ \<Rightarrow> Inl SyntaxError)"

definition writeFile :: "booksFile \<Rightarrow> fs \<Rightarrow> error + fs" where
  "writeFile f s =
     (if writable s then Inr (s\<lparr>content := f, writes := Suc (writes s)\<rparr>) else Inl IOError)"

definition readBooks :: "fs \<Rightarrow> error + book list" where
  \<comment> \<open>the \<open>try\<close> block, and the \<open>catch\<close> that returns \<open>[]\<close>\<close>
  "readBooks s =
     (case (case readFile s of Inl e \<Rightarrow> Inl e | Inr data \<Rightarrow> JSON_parse data) of
        Inl e \<Rightarrow> Inr []
      | Inr bs \<Rightarrow> Inr bs)"

definition writeBooks :: "book list \<Rightarrow> fs \<Rightarrow> error + fs" where
  "writeBooks books s = writeFile (Stored books) s"

definition generateId :: "book list \<Rightarrow> int" where
  \<comment> \<open>exact \<open>max + 1\<close>, which is what the code computes when the ids are safe integers\<close>
  "generateId books =
     (case map idB books of [] \<Rightarrow> 1 | i # is \<Rightarrow> fold max is i + 1)"

text \<open>
  \<open>clk k\<close> is what the \<open>k\<close>-th evaluation of \<open>new Date()\<close> in a request (or in
  the start-up) reads.
\<close>

definition sampleBooks :: "(nat \<Rightarrow> nat) \<Rightarrow> book list" where
  "sampleBooks clk =
     [\<lparr>idB = 1, title = ''To Kill a Mockingbird'', author = ''Harper Lee'',
       genre = ''Fiction'', year = Some 1960,
       description = ''A classic novel about racial injustice and moral growth in the American South.'',
       isbn = ''978-0-06-112008-4'', createdAt = clk 0, updatedAt = clk 1\<rparr>,
      \<lparr>idB = 2, title = ''1984'', author = ''George Orwell'',
       genre = ''Science Fiction'', year = Some 1949,
       description = ''A dystopian novel about totalitarianism and surveillance.'',
       isbn = ''978-0-452-28423-4'', createdAt = clk 2, updatedAt = clk 3\<rparr>,
      \<lparr>idB = 3, title = ''Pride and Prejudice'', author = ''Jane Austen'',
       genre = ''Romance'', year = Some 1813,
       description = ''A romantic novel about Elizabeth Bennet and Mr. Darcy.'',
       isbn = ''978-0-14-143951-8'', createdAt = clk 4, updatedAt = clk 5\<rparr>,
      \<lparr>idB = 4, title = ''The Great Gatsby'', author = ''F. Scott Fitzgerald'',
       genre = ''Fiction'', year = Some 1925,
       description = ''A story of decadence and excess in Jazz Age America.'',
       isbn = ''978-0-7432-7356-5'', createdAt = clk 6, updatedAt = clk 7\<rparr>]"

definition initializeBooksData :: "(nat \<Rightarrow> nat) \<Rightarrow> fs \<Rightarrow> error + fs" where
  "initializeBooksData clk s =
     (case content s of
        Missing \<Rightarrow> writeFile (Stored (sampleBooks clk)) s
      | _ \<Rightarrow> Inr s)"

section \<open>Validator\<close>

definition isbnPattern :: "string \<Rightarrow> bool" where
  \<comment> \<open>the regular expression \<open>^[\d-]{10,17}$\<close>\<close>
  "isbnPattern s =
     (10 \<le> length s \<and> length s \<le> 17 \<and> list_all (\<lambda>c. isDigit c \<or> c = CHR ''-'') s)"

definition stripIsbn :: "string \<Rightarrow> string" where
  \<comment> \<open>\<open>isbn.replace(/[\s-]/g, '')\<close>\<close>
  "stripIsbn s = filter (\<lambda>c. \<not> (isWhiteSpace c \<or> c = CHR ''-'')) s"

definition validateBook :: "int \<Rightarrow> bookData \<Rightarrow> string list" where
  \<comment> \<open>\<open>cy\<close> is \<open>new Date().getFullYear()\<close>\<close>
  "validateBook cy b =
     (let errors = [];
          errors = (if (case titleD b of None \<Rightarrow> True
                        | Some t \<Rightarrow> t = [] \<or> length (trim t) = 0)
                    then errors @ [''Title is required''] else errors);
          errors = (if (case authorD b of None \<Rightarrow> True
                        | Some a \<Rightarrow> a = [] \<or> length (trim a) = 0)
                    then errors @ [''Author is required''] else errors);
          errors = (if (case yearD b of None \<Rightarrow> False
                        | Some y \<Rightarrow> y \<noteq> 0 \<and> (y < 1000 \<or> y > cy))
                    then errors @ [''Year must be between 1000 and current year''] else errors);
          errors = (if (case isbnD b of None \<Rightarrow> False
                        | Some i \<Rightarrow> i \<noteq> [] \<and> \<not> isbnPattern (stripIsbn i))
                    then errors @ [''Invalid ISBN format''] else errors)
      in errors)"

section \<open>API layer\<close>

record query =
  searchQ :: "string option"
  genreQ :: "string option"
  yearQ :: "string option"
  authorQ :: "string option"
  limitQ :: "string option"
  offsetQ :: "string option"

record results =
  success :: "book list"
  errorsR :: "(nat \<times> string list) list"

record stats =
  totalBooks :: nat
  totalAuthors :: nat
  totalGenres :: nat
  genreDistribution :: "string \<rightharpoonup> nat"
  yearDistribution :: "string \<rightharpoonup> nat"
  recentlyAdded :: "book list"

datatype body =
    Books "book list" nat nat
  | Book book
  | Errors "string list"
  | Error string
  | Deleted string book
  | Stats stats
  | Strings "string list"
  | Bulk results

datatype response = Response (status: nat) (body: body)

text \<open>
  \<open>Books bs total count\<close> is the object \<open>{books, total, count}\<close>, \<open>Errors\<close> is
  \<open>{errors}\<close>, \<open>Error\<close> is \<open>{error}\<close>, \<open>Deleted\<close> is \<open>{message, book}\<close>.
  A handler takes the store and returns its response with the store it leaves.
\<close>

subsection \<open>GET /api/books\<close>

text \<open>
  \<open>toNumber\<close> stands for the conversion the loose equality \<open>book.year == year\<close>
  applies to the query string: \<open>Some n\<close> when the string converts to the integer
  \<open>n\<close>, \<open>None\<close> otherwise.
\<close>

definition applyFilters :: "(string \<Rightarrow> jsnum) \<Rightarrow> query \<Rightarrow> book list \<Rightarrow> book list" where
  "applyFilters toNumber q books =
     (let filteredBooks = books;
          filteredBooks =
            (case searchQ q of
               None \<Rightarrow> filteredBooks
             | Some search \<Rightarrow>
                 if search = [] then filteredBooks
                 else (let searchLower = toLowerCase search in
                       filter (\<lambda>book.
                         includesStr (toLowerCase (title book)) searchLower \<or>
                         includesStr (toLowerCase (author book)) searchLower \<or>
                         includesStr (toLowerCase (genre book)) searchLower \<or>
                         (description book \<noteq> [] \<and>
                          includesStr (toLowerCase (description book)) searchLower))
                         filteredBooks));
          filteredBooks =
            (case genreQ q of
               None \<Rightarrow> filteredBooks
             | Some g \<Rightarrow>
                 if g = [] then filteredBooks
                 else filter (\<lambda>book. genre book = g) filteredBooks);
          filteredBooks =
            (case yearQ q of
               None \<Rightarrow> filteredBooks
             | Some y \<Rightarrow>
                 if y = [] then filteredBooks
                 else filter (\<lambda>book. case year book of None \<Rightarrow> False
                                       | Some n \<Rightarrow> toNumber y = Some n) filteredBooks);
          filteredBooks =
            (case authorQ q of
               None \<Rightarrow> filteredBooks
             | Some a \<Rightarrow>
                 if a = [] then filteredBooks
                 else filter (\<lambda>book. includesStr (toLowerCase (author book)) (toLowerCase a))
                        filteredBooks)
      in filteredBooks)"

definition paginate :: "query \<Rightarrow> book list \<Rightarrow> book list" where
  "paginate q filteredBooks =
     (case limitQ q of
        None \<Rightarrow> filteredBooks
      | Some limit \<Rightarrow>
          if limit = [] then filteredBooks
          else (let limitNum = parseInt limit;
                    offsetNum = (case parseInt (paramString (offsetQ q)) of
                                   None \<Rightarrow> Some 0
                                 | Some n \<Rightarrow> Some n)
                in sliceArr filteredBooks offsetNum (jsAdd offsetNum limitNum)))"

definition getBooks :: "(string \<Rightarrow> jsnum) \<Rightarrow> query \<Rightarrow> fs \<Rightarrow> response \<times> fs" where
  "getBooks toNumber q s =
     (case readBooks s of
        Inl e \<Rightarrow> (Response 500 (Error ''Failed to fetch books''), s)
      | Inr books \<Rightarrow>
          (let filteredBooks = applyFilters toNumber q books;
               total = length filteredBooks;
               filteredBooks = paginate q filteredBooks
           in (Response 200 (Books filteredBooks total (length filteredBooks)), s)))"

subsection \<open>GET /api/books/:id\<close>

definition getBookById :: "string \<Rightarrow> fs \<Rightarrow> response \<times> fs" where
  "getBookById idParam s =
     (case readBooks s of
        Inl e \<Rightarrow> (Response 500 (Error ''Failed to fetch book''), s)
      | Inr books \<Rightarrow>
          (case find (\<lambda>b. Some (idB b) = parseInt idParam) books of
             None \<Rightarrow> (Response 404 (Error ''Book not found''), s)
           | Some book \<Rightarrow> (Response 200 (Book book), s)))"

subsection \<open>POST /api/books\<close>

definition genreOrOther :: "string option \<Rightarrow> string" where
  \<comment> \<open>\<open>bookData.genre || 'Other'\<close>\<close>
  "genreOrOther g = (case g of None \<Rightarrow> ''Other'' | Some x \<Rightarrow> if x = [] then ''Other'' else x)"

definition yearOrNull :: "int option \<Rightarrow> int option" where
  \<comment> \<open>\<open>bookData.year || null\<close>\<close>
  "yearOrNull y = (case y of None \<Rightarrow> None | Some n \<Rightarrow> if n = 0 then None else Some n)"

definition trimOrEmpty :: "string option \<Rightarrow> string" where
  \<comment> \<open>\<open>x ? x.trim() : ''\<close>\<close>
  "trimOrEmpty x = (case x of None \<Rightarrow> [] | Some d \<Rightarrow> if d = [] then [] else trim d)"

definition sameTitleAuthor :: "string \<Rightarrow> string \<Rightarrow> book \<Rightarrow> bool" where
  \<comment> \<open>the callback of the duplicate check, with the candidate's title and author\<close>
  "sameTitleAuthor t a book =
     (toLowerCase (title book) = toLowerCase t \<and> toLowerCase (author book) = toLowerCase a)"

text \<open>
  After \<open>validateBook\<close> found nothing, title and author are non-empty strings. Were one
  of them missing, \<open>.toLowerCase()\<close> or \<open>.trim()\<close> would throw a TypeError, which
  the handler's \<open>catch\<close> answers with 500: the last case of each handler below.
\<close>

definition postBook :: "int \<Rightarrow> (nat \<Rightarrow> nat) \<Rightarrow> bookData \<Rightarrow> fs \<Rightarrow> response \<times> fs" where
  "postBook cy clk bookData s =
     (let errors = validateBook cy bookData in
      if length errors > 0 then (Response 400 (Errors errors), s)
      else
        (case readBooks s of
           Inl e \<Rightarrow> (Response 500 (Error ''Failed to create book''), s)
         | Inr books \<Rightarrow>
             (case (titleD bookData, authorD bookData) of
                (Some t, Some a) \<Rightarrow>
                  (case find (sameTitleAuthor t a) books of
                     Some duplicate \<Rightarrow>
                       (Response 400 (Error ''Book with same title and author already exists''), s)
                   | None \<Rightarrow>
                       (let newBook =
                              \<lparr>idB = generateId books, title = trim t, author = trim a,
                               genre = genreOrOther (genreD bookData),
                               year = yearOrNull (yearD bookData),
                               description = trimOrEmpty (descriptionD bookData),
                               isbn = trimOrEmpty (isbnD bookData),
                               createdAt = clk 0, updatedAt = clk 1\<rparr>;
                            books = books @ [newBook]
                        in (case writeBooks books s of
                              Inl e \<Rightarrow> (Response 500 (Error ''Failed to create book''), s)
                            | Inr s' \<Rightarrow> (Response 201 (Book newBook), s'))))
              | _ \<Rightarrow> (Response 500 (Error ''Failed to create book''), s))))"

subsection \<open>PUT /api/books/:id\<close>

definition putBook ::
  "int \<Rightarrow> (nat \<Rightarrow> nat) \<Rightarrow> string \<Rightarrow> bookData \<Rightarrow> fs \<Rightarrow> response \<times> fs" where
  "putBook cy clk idParam bookData s =
     (let bookId = parseInt idParam;
          errors = validateBook cy bookData in
      if length errors > 0 then (Response 400 (Errors errors), s)
      else
        (case readBooks s of
           Inl e \<Rightarrow> (Response 500 (Error ''Failed to update book''), s)
         | Inr books \<Rightarrow>
             (case findIndex (\<lambda>b. Some (idB b) = bookId) books of
                None \<Rightarrow> (Response 404 (Error ''Book not found''), s)
              | Some bookIndex \<Rightarrow>
                  (case (titleD bookData, authorD bookData) of
                     (Some t, Some a) \<Rightarrow>
                       (case find (\<lambda>book. Some (idB book) \<noteq> bookId \<and> sameTitleAuthor t a book)
                               books of
                          Some duplicate \<Rightarrow>
                            (Response 400
                               (Error ''Book with same title and author already exists''), s)
                        | None \<Rightarrow>
                            (let updatedBook =
                                   (books ! bookIndex)
                                     \<lparr>title := trim t, author := trim a,
                                      genre := genreOrOther (genreD bookData),
                                      year := yearOrNull (yearD bookData),
                                      description := trimOrEmpty (descriptionD bookData),
                                      isbn := trimOrEmpty (isbnD bookData),
                                      updatedAt := clk 0\<rparr>;
                                 books = books[bookIndex := updatedBook]
                             in (case writeBooks books s of
                                   Inl e \<Rightarrow> (Response 500 (Error ''Failed to update book''), s)
                                 | Inr s' \<Rightarrow> (Response 200 (Book updatedBook), s'))))
                   | _ \<Rightarrow> (Response 500 (Error ''Failed to update book''), s)))))"

subsection \<open>DELETE /api/books/:id\<close>

definition deleteBook :: "string \<Rightarrow> fs \<Rightarrow> response \<times> fs" where
  "deleteBook idParam s =
     (let bookId = parseInt idParam in
      case readBooks s of
        Inl e \<Rightarrow> (Response 500 (Error ''Failed to delete book''), s)
      | Inr books \<Rightarrow>
          (case findIndex (\<lambda>b. Some (idB b) = bookId) books of
             None \<Rightarrow> (Response 404 (Error ''Book not found''), s)
           | Some bookIndex \<Rightarrow>
               (let deletedBook = books ! bookIndex;
                    books = take bookIndex books @ drop (Suc bookIndex) books
                in (case writeBooks books s of
                      Inl e \<Rightarrow> (Response 500 (Error ''Failed to delete book''), s)
                    | Inr s' \<Rightarrow>
                        (Response 200 (Deleted ''Book deleted successfully'' deletedBook), s')))))"

subsection \<open>GET /api/stats, /api/genres, /api/authors\<close>

definition bump :: "string \<Rightarrow> (string \<rightharpoonup> nat) \<Rightarrow> (string \<rightharpoonup> nat)" where
  \<comment> \<open>\<open>dist[k] = (dist[k] || 0) + 1\<close>\<close>
  "bump k m = m(k \<mapsto> (case m k of None \<Rightarrow> 0 | Some c \<Rightarrow> c) + 1)"

definition decadeLabel :: "int \<Rightarrow> string" where
  "decadeLabel y = (let decade = (y div 10) * 10 in numToString decade @ ''s'')"

definition countYear :: "book \<Rightarrow> (string \<rightharpoonup> nat) \<Rightarrow> (string \<rightharpoonup> nat)" where
  \<comment> \<open>the body of the second \<open>forEach\<close>\<close>
  "countYear book m =
     (case year book of
        None \<Rightarrow> m
      | Some y \<Rightarrow> if y = 0 then m else bump (decadeLabel y) m)"

text \<open>
  \<open>books.sort(...)\<close> sorts the array in place, newest \<open>createdAt\<close> first and stable,
  before either \<open>forEach\<close> runs: both loops walk the sorted array. The two
  distributions are maps from the key to its count. A decade label is never the name of
  a member of \<open>Object.prototype\<close>; for the genre distribution the map is what the
  object holds as long as no genre is such a name.
\<close>

definition getStats :: "fs \<Rightarrow> response \<times> fs" where
  "getStats s =
     (case readBooks s of
        Inl e \<Rightarrow> (Response 500 (Error ''Failed to fetch statistics''), s)
      | Inr books \<Rightarrow>
          (let n = length books;
               authors = length (remdups (map author books));
               genres = length (remdups (map genre books));
               books = sort_key (\<lambda>b. - int (createdAt b)) books;
               recent = take 5 books;
               gd = fold (\<lambda>book. bump (genre book)) books Map.empty;
               yd = fold countYear books Map.empty
           in (Response 200
                 (Stats \<lparr>totalBooks = n, totalAuthors = authors, totalGenres = genres,
                         genreDistribution = gd, yearDistribution = yd,
                         recentlyAdded = recent\<rparr>), s)))"

definition getGenres :: "fs \<Rightarrow> response \<times> fs" where
  "getGenres s =
     (case readBooks s of
        Inl e \<Rightarrow> (Response 500 (Error ''Failed to fetch genres''), s)
      | Inr books \<Rightarrow> (Response 200 (Strings (sort (remdups (map genre books)))), s))"

definition getAuthors :: "fs \<Rightarrow> response \<times> fs" where
  "getAuthors s =
     (case readBooks s of
        Inl e \<Rightarrow> (Response 500 (Error ''Failed to fetch authors''), s)
      | Inr books \<Rightarrow> (Response 200 (Strings (sort (remdups (map author books)))), s))"

subsection \<open>POST /api/books/bulk\<close>

fun bulkLoop ::
  "int \<Rightarrow> (nat \<Rightarrow> nat) \<Rightarrow> bookData list \<Rightarrow> nat \<Rightarrow> book list \<Rightarrow> results
     \<Rightarrow> error + (book list \<times> results)" where
  "bulkLoop cy clk [] i books res = Inr (books, res)"
| "bulkLoop cy clk (bookData # rest) i books res =
     (let errors = validateBook cy bookData in
      if length errors > 0
      then bulkLoop cy clk rest (Suc i) books (res\<lparr>errorsR := errorsR res @ [(i, errors)]\<rparr>)
      else
        (case (titleD bookData, authorD bookData) of
           (Some t, Some a) \<Rightarrow>
             (case find (sameTitleAuthor t a) books of
                Some duplicate \<Rightarrow>
                  bulkLoop cy clk rest (Suc i) books
                    (res\<lparr>errorsR := errorsR res
                           @ [(i, [''Book with same title and author already exists''])]\<rparr>)
              | None \<Rightarrow>
                  (let k = 2 * length (success res);
                       newBook =
                         \<lparr>idB = generateId books, title = trim t, author = trim a,
                          genre = genreOrOther (genreD bookData),
                          year = yearOrNull (yearD bookData),
                          description = trimOrEmpty (descriptionD bookData),
                          isbn = trimOrEmpty (isbnD bookData),
                          createdAt = clk k, updatedAt = clk (Suc k)\<rparr>
                   in bulkLoop cy clk rest (Suc i) (books @ [newBook])
                        (res\<lparr>success := success res @ [newBook]\<rparr>)))
         | _ \<Rightarrow> Inl TypeError))"

text \<open>\<open>booksData\<close> is \<open>None\<close> when \<open>req.body.books\<close> is not an array.\<close>

definition postBulk ::
  "int \<Rightarrow> (nat \<Rightarrow> nat) \<Rightarrow> bookData list option \<Rightarrow> fs \<Rightarrow> response \<times> fs" where
  "postBulk cy clk booksData s =
     (case booksData of
        None \<Rightarrow> (Response 400 (Error ''Books data must be an array''), s)
      | Some candidates \<Rightarrow>
          (case readBooks s of
             Inl e \<Rightarrow> (Response 500 (Error ''Failed to process bulk operation''), s)
           | Inr books \<Rightarrow>
               (case bulkLoop cy clk candidates 0 books \<lparr>success = [], errorsR = []\<rparr> of
                  Inl e \<Rightarrow> (Response 500 (Error ''Failed to process bulk operation''), s)
                | Inr (books, res) \<Rightarrow>
                    if length (success res) > 0
                    then (case writeBooks books s of
                            Inl e \<Rightarrow>
                              (Response 500 (Error ''Failed to process bulk operation''), s)
                          | Inr s' \<Rightarrow> (Response 201 (Bulk res), s'))
                    else (Response 201 (Bulk res), s))))"

section \<open>Definitions used to state the properties\<close>

text \<open>The store the start-up leaves on a fresh data directory: the four sample books.\<close>

definition seedFs :: "(nat \<Rightarrow> nat) \<Rightarrow> fs" where
  "seedFs clk = \<lparr>content = Stored (sampleBooks clk), writable = True, writes = 1\<rparr>"

text \<open>A request body that carries a title and an author and nothing else.\<close>

definition titleAuthor :: "string \<Rightarrow> string \<Rightarrow> bookData" where
  "titleAuthor t a = \<lparr>titleD = Some t, authorD = Some a, genreD = None, yearD = None,
                      descriptionD = None, isbnD = None\<rparr>"

text \<open>The uniqueness invariant: no two books share (title, author) case-insensitively.\<close>

definition uniquePairs :: "book list \<Rightarrow> bool" where
  "uniquePairs books =
     distinct (map (\<lambda>b. (toLowerCase (title b), toLowerCase (author b))) books)"

text \<open>
  The validation rules in the specification's words. \<open>spec_nonBlank\<close>: present and not
  only whitespace. \<open>spec_digits\<close>: 10 to 17 digits once whitespace and hyphens are
  removed. \<open>claimed_yearOk\<close> and \<open>claimed_isbnOk\<close> apply the rule to every value
  that is present; \<open>spec_yearOk\<close> and \<open>spec_isbnOk\<close> apply it to a truthy value
  only (a year other than 0, a non-empty isbn).
\<close>

definition spec_nonBlank :: "string option \<Rightarrow> bool" where
  "spec_nonBlank v =
     (case v of None \<Rightarrow> False | Some s \<Rightarrow> list_ex (\<lambda>c. \<not> isWhiteSpace c) s)"

definition spec_digits :: "string \<Rightarrow> bool" where
  "spec_digits i =
     (let d = filter (\<lambda>c. \<not> isWhiteSpace c \<and> c \<noteq> CHR ''-'') i
      in 10 \<le> length d \<and> length d \<le> 17 \<and> list_all isDigit d)"

definition claimed_yearOk :: "int \<Rightarrow> int option \<Rightarrow> bool" where
  "claimed_yearOk cy v = (case v of None \<Rightarrow> True | Some y \<Rightarrow> 1000 \<le> y \<and> y \<le> cy)"

definition claimed_isbnOk :: "string option \<Rightarrow> bool" where
  "claimed_isbnOk v = (case v of None \<Rightarrow> True | Some i \<Rightarrow> spec_digits i)"

definition spec_yearOk :: "int \<Rightarrow> int option \<Rightarrow> bool" where
  "spec_yearOk cy v =
     (case v of None \<Rightarrow> True | Some y \<Rightarrow> y = 0 \<or> (1000 \<le> y \<and> y \<le> cy))"

definition spec_isbnOk :: "string option \<Rightarrow> bool" where
  "spec_isbnOk v = (case v of None \<Rightarrow> True | Some i \<Rightarrow> i = [] \<or> spec_digits i)"

text \<open>The decade label a book is counted under, when its year is truthy.\<close>

definition decadeOf :: "book \<Rightarrow> string option" where
  "decadeOf b =
     (case year b of None \<Rightarrow> None | Some y \<Rightarrow> if y = 0 then None else Some (decadeLabel y))"

text \<open>A stored book that equals the request body field by field.\<close>

definition equalsInput :: "bookData \<Rightarrow> book \<Rightarrow> bool" where
  "equalsInput d b =
     (titleD d = Some (title b) \<and> authorD d = Some (author b) \<and> genreD d = Some (genre b) \<and>
      yearD d = year b \<and> descriptionD d = Some (description b) \<and> isbnD d = Some (isbn b))"

text \<open>
  A path segment with a leading integer: after optional whitespace and an optional sign,
  a decimal digit follows.
\<close>

definition hasLeadingInteger :: "string \<Rightarrow> bool" where
  "hasLeadingInteger seg =
     (case dropWhile isWhiteSpace seg of
        [] \<Rightarrow> False
      | c # cs \<Rightarrow>
          if c = CHR ''+'' \<or> c = CHR ''-'' then (case cs of [] \<Rightarrow> False | d # _ \<Rightarrow> isDigit d)
          else isDigit c)"

section \<open>Facts about the built-ins and the store\<close>

lemma readBooks_eq:
  "readBooks s =
     Inr (case content s of Missing \<Rightarrow> [] | Unparsable \<Rightarrow> [] | Stored books \<Rightarrow> books)"
  by (simp add: readBooks_def readFile_def JSON_parse_def split: booksFile.splits)

lemma initializeBooksData_fresh:
  "initializeBooksData clk \<lparr>content = Missing, writable = True, writes = 0\<rparr> =
     Inr (seedFs clk)"
  by (simp add: initializeBooksData_def writeFile_def seedFs_def)

lemma digit_cases: "d < 10 \<Longrightarrow> d \<in> {0, 1, 2, 3, 4, 5, 6, 7, 8, 9 :: nat}"
  by auto

lemma digit_char:
  assumes "d < 10"
  shows "isDigit (''0123456789'' ! d)" and "digitValue (''0123456789'' ! d) = d"
  using digit_cases[OF assms] by (auto simp: isDigit_def digitValue_def)

lemma isDigit_props:
  assumes "isDigit c"
  shows "\<not> isWhiteSpace c" and "digitValue c < 10" and "digitValue c < 16"
    and "c \<noteq> CHR ''-''" and "c \<noteq> CHR ''+''" and "c \<noteq> CHR ''x''" and "c \<noteq> CHR ''X''"
  using assms by (auto simp: isDigit_def isWhiteSpace_def digitValue_def)

lemma digitValue_lt_10: "digitValue c < 10 \<longleftrightarrow> isDigit c"
  by (auto simp: digitValue_def isDigit_def Let_def)

lemma natToString_digits: "list_all isDigit (natToString n)"
  by (induction n rule: natToString.induct)
     (subst natToString.simps, simp add: digit_char)

lemma natToString_not_Nil: "natToString n \<noteq> []"
  by (subst natToString.simps) simp

lemma radixValue_snoc: "radixValue r (z @ [c]) = radixValue r z * r + digitValue c"
  by (simp add: radixValue_def)

lemma radixValue_natToString: "radixValue 10 (natToString n) = n"
proof (induction n rule: natToString.induct)
  case (1 n)
  show ?case
  proof (cases "n < 10")
    case True
    then show ?thesis
      by (subst natToString.simps) (simp add: radixValue_def digit_char)
  next
    case False
    with 1 have "radixValue 10 (natToString (n div 10)) = n div 10" by simp
    with False show ?thesis
      by (subst natToString.simps) (simp add: radixValue_snoc digit_char)
  qed
qed

lemma dropWhile_prefix:
  assumes "list_all P ws" and "ys = [] \<or> \<not> P (hd ys)"
  shows "dropWhile P (ws @ ys) = ys"
proof -
  have "dropWhile P ys = ys"
    using assms(2) by (cases ys) auto
  with assms(1) show ?thesis
    by (induction ws) auto
qed

lemma takeWhile_prefix:
  assumes "list_all P ds" and "ys = [] \<or> \<not> P (hd ys)"
  shows "takeWhile P (ds @ ys) = ds"
proof -
  have "takeWhile P ys = []"
    using assms(2) by (cases ys) auto
  with assms(1) show ?thesis
    by (induction ds) auto
qed

lemma startsWith_append_digits:
  assumes "ds \<noteq> []" and "list_all isDigit ds" and "rest = [] \<or> \<not> isDigit (hd rest)"
    and "\<not> (ds = ''0'' \<and> startsWith rest [x])" and "\<not> isDigit x"
  shows "\<not> startsWith (ds @ rest) [CHR ''0'', x]"
proof (cases ds)
  case Nil
  with assms(1) show ?thesis by simp
next
  case (Cons d ds')
  show ?thesis
  proof (cases ds')
    case Nil
    with Cons assms(4) show ?thesis by (cases rest) auto
  next
    case (Cons e ds'')
    with \<open>ds = d # ds'\<close> assms(2,5) show ?thesis by auto
  qed
qed

text \<open>
  What \<open>parseInt\<close> reads from a sign, decimal digits and a rest that does not go on
  with a digit. The digit 0 followed by x or X is left out: there \<open>parseInt\<close> turns to
  radix 16.
\<close>

lemma parseInt_signed:
  assumes "ds \<noteq> []" and "list_all isDigit ds" and "rest = [] \<or> \<not> isDigit (hd rest)"
    and "\<not> (ds = ''0'' \<and> (startsWith rest ''x'' \<or> startsWith rest ''X''))"
    and "sg \<in> {[], ''+'', ''-''}"
  shows "parseInt (sg @ ds @ rest) =
           Some ((if sg = ''-'' then - 1 else 1) * int (radixValue 10 ds))"
proof -
  from assms obtain d ds' where ds: "ds = d # ds'" and d: "isDigit d"
    by (cases ds) auto
  have nx: "\<not> isDigit CHR ''x''" "\<not> isDigit CHR ''X''"
    by (simp_all add: isDigit_def)
  have nohex: "\<not> startsWith (ds @ rest) ''0x''" "\<not> startsWith (ds @ rest) ''0X''"
    using assms(4)
    by (auto intro!: startsWith_append_digits[OF assms(1,2,3) _ nx(1)]
        startsWith_append_digits[OF assms(1,2,3) _ nx(2)])
  have nosign: "\<not> startsWith (ds @ rest) ''-''" "\<not> startsWith (ds @ rest) ''+''"
    using isDigit_props[OF d] by (simp_all add: ds)
  have nows: "dropWhile isWhiteSpace (ds @ rest) = ds @ rest"
    using isDigit_props[OF d] by (simp add: ds)
  have tw: "takeWhile (\<lambda>c. digitValue c < 10) (ds @ rest) = ds"
    using assms(2,3) by (intro takeWhile_prefix) (simp_all add: digitValue_lt_10)
  have ws: "\<not> isWhiteSpace CHR ''-''" "\<not> isWhiteSpace CHR ''+''"
    by (simp_all add: isWhiteSpace_def)
  from assms(5) consider "sg = []" | "sg = ''+''" | "sg = ''-''" by auto
  then show ?thesis
  proof cases
    case 1
    then show ?thesis
      using assms(1) by (simp add: parseInt_def Let_def nows nosign nohex tw)
  next
    case 2
    then show ?thesis
      using assms(1) ws by (simp add: parseInt_def Let_def nohex tw)
  next
    case 3
    then show ?thesis
      using assms(1) ws by (simp add: parseInt_def Let_def nohex tw)
  qed
qed

lemma parseInt_leading:
  assumes "list_all isWhiteSpace ws" and "sg \<in> {[], ''+'', ''-''}"
    and "ds \<noteq> []" and "list_all isDigit ds" and "rest = [] \<or> \<not> isDigit (hd rest)"
    and "\<not> (ds = ''0'' \<and> (startsWith rest ''x'' \<or> startsWith rest ''X''))"
  shows "parseInt (ws @ sg @ ds @ rest) =
           Some ((if sg = ''-'' then - 1 else 1) * int (radixValue 10 ds))"
proof -
  from assms(3,4) obtain d ds' where ds: "ds = d # ds'" and d: "isDigit d"
    by (cases ds) auto
  have hd: "\<not> isWhiteSpace (hd (sg @ ds @ rest))"
    using assms(2) isDigit_props(1)[OF d] by (auto simp: ds isWhiteSpace_def)
  then have "dropWhile isWhiteSpace (ws @ sg @ ds @ rest) = sg @ ds @ rest"
    using assms(1) by (intro dropWhile_prefix) simp_all
  moreover have "dropWhile isWhiteSpace (sg @ ds @ rest) = sg @ ds @ rest"
    using hd by (cases "sg @ ds @ rest") simp_all
  ultimately have "parseInt (ws @ sg @ ds @ rest) = parseInt (sg @ ds @ rest)"
    by (simp add: parseInt_def)
  then show ?thesis
    using parseInt_signed[OF assms(3-6,2)] by simp
qed

lemma parseInt_numToString: "parseInt (numToString i) = Some i"
proof (cases "i < 0")
  case True
  have "parseInt (''-'' @ natToString (nat (- i)) @ []) =
          Some ((if ''-'' = ''-'' then - 1 else 1) * int (radixValue 10 (natToString (nat (- i)))))"
    by (rule parseInt_signed) (simp_all add: natToString_not_Nil natToString_digits)
  with True show ?thesis
    by (simp add: numToString_def radixValue_natToString)
next
  case False
  have "parseInt ([] @ natToString (nat i) @ []) =
          Some ((if [] = ''-'' then - 1 else 1) * int (radixValue 10 (natToString (nat i))))"
    by (rule parseInt_signed) (simp_all add: natToString_not_Nil natToString_digits)
  with False show ?thesis
    by (simp add: numToString_def radixValue_natToString)
qed

lemma parseInt_undefined: "parseInt ''undefined'' = None"
  by (simp add: parseInt_def isWhiteSpace_def digitValue_def)

lemma parseInt_Some_leading:
  assumes "parseInt seg = Some n"
  shows "hasLeadingInteger seg"
proof -
  define s where "s = dropWhile isWhiteSpace seg"
  define s2 where "s2 = (if startsWith s ''+'' \<or> startsWith s ''-'' then tl s else s)"
  define hex where "hex = (startsWith s2 ''0x'' \<or> startsWith s2 ''0X'')"
  have z: "takeWhile (\<lambda>c. digitValue c < (if hex then 16 else 10))
             (if hex then drop 2 s2 else s2) \<noteq> []"
    using assms
    unfolding parseInt_def Let_def s_def[symmetric] s2_def[symmetric] hex_def[symmetric]
    by (auto split: if_splits)
  have d2: "s2 \<noteq> [] \<and> isDigit (hd s2)"
  proof (cases hex)
    case True
    then obtain r where "s2 = CHR ''0'' # r"
      unfolding hex_def by (cases s2) auto
    then show ?thesis by (simp add: isDigit_def)
  next
    case False
    with z obtain c cs where "s2 = c # cs" "digitValue c < 10"
      by (cases s2) (auto split: if_splits)
    then show ?thesis by (simp add: digitValue_lt_10)
  qed
  show ?thesis
  proof (cases s)
    case Nil
    with d2 show ?thesis by (simp add: s2_def)
  next
    case (Cons c cs)
    show ?thesis
    proof (cases "c = CHR ''+'' \<or> c = CHR ''-''")
      case True
      with Cons have "s2 = cs" by (auto simp: s2_def)
      with d2 True Cons show ?thesis
        unfolding hasLeadingInteger_def s_def[symmetric] by (cases cs) auto
    next
      case False
      with Cons have "s2 = s" by (auto simp: s2_def)
      with d2 False Cons show ?thesis
        unfolding hasLeadingInteger_def s_def[symmetric] by auto
    qed
  qed
qed

lemma sliceArr_nat:
  "sliceArr xs (Some (int M)) (Some (int M + int L)) = take L (drop M xs)"
proof (cases "M \<le> length xs")
  case True
  then show ?thesis
    by (cases "M + L \<le> length xs")
       (simp_all add: sliceArr_def toIntegerOrInfinity_def Let_def min_def nat_diff_distrib')
next
  case False
  then show ?thesis
    by (simp add: sliceArr_def toIntegerOrInfinity_def Let_def min_def)
qed

lemma generateId_fresh:
  assumes "b \<in> set books"
  shows "idB b < generateId books"
proof -
  from assms obtain i rest where m: "map idB books = i # rest"
    by (cases books) auto
  have "idB b \<in> set (i # rest)"
    using assms m by (metis image_eqI list.set_map)
  then have "idB b \<le> Max (set (i # rest))"
    by (intro Max_ge) auto
  also have "\<dots> = fold max rest i"
    by (rule Max.set_eq_fold)
  finally show ?thesis
    by (simp add: generateId_def m)
qed

lemma find_append_new:
  assumes "\<forall>b \<in> set xs. \<not> P b" and "P y"
  shows "find P (xs @ [y]) = Some y"
  using assms by (induction xs) auto

lemma find_never: "find (\<lambda>b. False) xs = None"
  by (induction xs) auto

lemma findIndex_never: "findIndex (\<lambda>b. False) xs = None"
  by (induction xs) auto

lemma findIndex_Some:
  "findIndex P xs = Some i \<Longrightarrow> i < length xs \<and> P (xs ! i)"
  by (induction xs arbitrary: i) (auto split: if_splits option.splits)

lemma trim_Nil: "trim s = [] \<longleftrightarrow> list_all isWhiteSpace s"
proof
  assume "trim s = []"
  then have a: "\<forall>x \<in> set (dropWhile isWhiteSpace s). isWhiteSpace x"
    by (simp add: trim_def)
  show "list_all isWhiteSpace s"
  proof (cases "dropWhile isWhiteSpace s")
    case Nil
    then show ?thesis by (simp add: list_all_iff)
  next
    case (Cons x xs)
    then have "\<not> isWhiteSpace x" by (metis hd_dropWhile list.sel(1) list.distinct(1))
    with a Cons show ?thesis by simp
  qed
next
  assume "list_all isWhiteSpace s"
  then have d: "dropWhile isWhiteSpace s = []" by (simp add: list_all_iff)
  show "trim s = []" unfolding trim_def d by simp
qed

section \<open>The validator, rule by rule\<close>

lemma blank_field:
  "(case v of None \<Rightarrow> True | Some t \<Rightarrow> t = [] \<or> length (trim t) = 0) \<longleftrightarrow> \<not> spec_nonBlank v"
  by (auto simp: spec_nonBlank_def trim_Nil list_all_iff list_ex_iff split: option.splits)

lemma isbnPattern_strip: "isbnPattern (stripIsbn i) \<longleftrightarrow> spec_digits i"
proof -
  have "list_all (\<lambda>c. isDigit c \<or> c = CHR ''-'') (stripIsbn i) \<longleftrightarrow>
        list_all isDigit (stripIsbn i)"
    by (auto simp: stripIsbn_def list_all_iff)
  moreover have "stripIsbn i = filter (\<lambda>c. \<not> isWhiteSpace c \<and> c \<noteq> CHR ''-'') i"
    by (simp add: stripIsbn_def)
  ultimately show ?thesis
    by (simp add: isbnPattern_def spec_digits_def Let_def)
qed

lemma year_field:
  "(case v of None \<Rightarrow> False | Some y \<Rightarrow> y \<noteq> 0 \<and> (y < 1000 \<or> y > cy)) \<longleftrightarrow>
   \<not> spec_yearOk cy v"
  by (auto simp: spec_yearOk_def split: option.splits)

lemma isbn_field:
  "(case v of None \<Rightarrow> False | Some i \<Rightarrow> i \<noteq> [] \<and> \<not> isbnPattern (stripIsbn i)) \<longleftrightarrow>
   \<not> spec_isbnOk v"
  by (auto simp: spec_isbnOk_def isbnPattern_strip split: option.splits)

lemma validateBook_eq:
  "validateBook cy b =
     (if spec_nonBlank (titleD b) then [] else [''Title is required'']) @
     (if spec_nonBlank (authorD b) then [] else [''Author is required'']) @
     (if spec_yearOk cy (yearD b) then []
      else [''Year must be between 1000 and current year'']) @
     (if spec_isbnOk (isbnD b) then [] else [''Invalid ISBN format''])"
  unfolding validateBook_def Let_def blank_field year_field isbn_field
  by simp

lemma validateBook_Nil_title:
  assumes "validateBook cy b = []"
  shows "\<exists>t a. titleD b = Some t \<and> authorD b = Some a"
  using assms by (auto simp: validateBook_eq spec_nonBlank_def split: if_splits option.splits)

section \<open>Uniqueness of (title, author)\<close>

text \<open>
  The duplicate check of a create compares the stored pair with the candidate's pair as
  sent. A candidate that matches an existing book this way is rejected and the store is
  left as it was.
\<close>

lemma post_rejects_duplicate:
  assumes "validateBook cy bookData = []"
    and "titleD bookData = Some t" and "authorD bookData = Some a"
    and "readBooks s = Inr books" and "b \<in> set books" and "sameTitleAuthor t a b"
  shows "postBook cy clk bookData s =
           (Response 400 (Error ''Book with same title and author already exists''), s)"
proof -
  have "find (sameTitleAuthor t a) books \<noteq> None"
    using assms(5,6) by (auto simp: find_None_iff)
  then obtain d where "find (sameTitleAuthor t a) books = Some d" by auto
  with assms(1-4) show ?thesis
    by (simp add: postBook_def)
qed

text \<open>
  A candidate whose title and author carry no surrounding whitespace keeps the invariant:
  the pair that is stored is the pair that was checked.
\<close>

lemma post_keeps_unique_when_trimmed:
  assumes "uniquePairs books" and "readBooks s = Inr books"
    and "titleD bookData = Some t" and "authorD bookData = Some a"
    and "trim t = t" and "trim a = a"
    and "postBook cy clk bookData s = (Response 201 body', s')"
  shows "\<exists>bs. content s' = Stored bs \<and> uniquePairs bs"
proof -
  from assms(7) have v: "validateBook cy bookData = []"
    by (auto simp: postBook_def Let_def split: if_splits)
  with assms(2,3,4,7) have f: "find (sameTitleAuthor t a) books = None"
    by (cases "find (sameTitleAuthor t a) books") (auto simp: postBook_def)
  define nb where "nb = \<lparr>idB = generateId books, title = trim t, author = trim a,
      genre = genreOrOther (genreD bookData), year = yearOrNull (yearD bookData),
      description = trimOrEmpty (descriptionD bookData),
      isbn = trimOrEmpty (isbnD bookData), createdAt = clk 0, updatedAt = clk 1\<rparr>"
  from assms(2,3,4,7) v f have s': "content s' = Stored (books @ [nb])"
    by (auto simp: postBook_def Let_def writeBooks_def writeFile_def nb_def split: if_splits)
  from f have "\<forall>b \<in> set books. \<not> sameTitleAuthor t a b"
    by (auto simp: find_None_iff)
  then have "(toLowerCase (title nb), toLowerCase (author nb)) \<notin>
             (\<lambda>b. (toLowerCase (title b), toLowerCase (author b))) ` set books"
    using assms(5,6) by (auto simp: sameTitleAuthor_def nb_def)
  with assms(1) have "uniquePairs (books @ [nb])"
    by (simp add: uniquePairs_def)
  with s' show ?thesis by blast
qed

text \<open>
  Claim C1. No two books of a collection reached through Create and Update share the same
  (title, author) case-insensitively. The code breaks this: the check compares the
  candidate's title as sent, the record is stored with the title trimmed. On the seeded
  collection, which has the invariant, a create with title " 1984" (a leading space) and
  author "George Orwell" passes the check, answers 201 and stores a fifth book whose
  title and author are those of the second. An update of the first book with the same
  body answers 200 and leaves the first and the second book with the same pair.
\<close>

theorem duplicate_after_trim:
  "uniquePairs (sampleBooks (\<lambda>k. k)) \<and>
   (case postBook 2026 (\<lambda>k. 100 + k) (titleAuthor '' 1984'' ''George Orwell'')
           (seedFs (\<lambda>k. k)) of
      (Response st b, s') \<Rightarrow>
        st = 201 \<and>
        (case content s' of
           Stored bs \<Rightarrow>
             length bs = 5 \<and> title (bs ! 1) = ''1984'' \<and> title (bs ! 4) = ''1984'' \<and>
             author (bs ! 1) = author (bs ! 4) \<and> \<not> uniquePairs bs
         | _ \<Rightarrow> False)) \<and>
   (case putBook 2026 (\<lambda>k. 100 + k) ''1'' (titleAuthor '' 1984'' ''George Orwell'')
           (seedFs (\<lambda>k. k)) of
      (Response st b, s') \<Rightarrow>
        st = 200 \<and>
        (case content s' of
           Stored bs \<Rightarrow>
             length bs = 4 \<and> title (bs ! 0) = ''1984'' \<and> title (bs ! 1) = ''1984'' \<and>
             author (bs ! 0) = author (bs ! 1) \<and> \<not> uniquePairs bs
         | _ \<Rightarrow> False))"
  by code_simp

section \<open>The validator\<close>

text \<open>
  Claim C2, as stated: the error list is empty iff title and author are present and not
  only whitespace, the year, if present, is in [1000, currentYear], and the isbn, if
  present, has 10 to 17 digits once whitespace and hyphens are gone. It fails on a year
  0 and on an empty isbn: both are present, neither meets its rule, and \<open>validateBook\<close>
  reports neither, because each rule is guarded by the truthiness of the field.
\<close>

theorem validate_truthy_counterexample:
  "\<not> (validateBook 2026 ((titleAuthor ''Dune'' ''Frank Herbert'')\<lparr>yearD := Some 0\<rparr>) = [] \<longleftrightarrow>
        spec_nonBlank (Some ''Dune'') \<and> spec_nonBlank (Some ''Frank Herbert'') \<and>
        claimed_yearOk 2026 (Some 0) \<and> claimed_isbnOk None) \<and>
   \<not> (validateBook 2026 ((titleAuthor ''Dune'' ''Frank Herbert'')\<lparr>isbnD := Some []\<rparr>) = [] \<longleftrightarrow>
        spec_nonBlank (Some ''Dune'') \<and> spec_nonBlank (Some ''Frank Herbert'') \<and>
        claimed_yearOk 2026 None \<and> claimed_isbnOk (Some []))"
  by code_simp

text \<open>
  Claim C2, amended: the error list is empty iff title and author are present and not
  only whitespace, the year, if present and other than 0, is in [1000, currentYear], and
  the isbn, if present and not empty, has 10 to 17 digits once whitespace and hyphens are
  gone. The list holds the message of every violated rule, in the order title, author,
  year, isbn.
\<close>

theorem validateBook_rules:
  "validateBook cy b =
     (if spec_nonBlank (titleD b) then [] else [''Title is required'']) @
     (if spec_nonBlank (authorD b) then [] else [''Author is required'']) @
     (if spec_yearOk cy (yearD b) then []
      else [''Year must be between 1000 and current year'']) @
     (if spec_isbnOk (isbnD b) then [] else [''Invalid ISBN format'']) \<and>
   (validateBook cy b = [] \<longleftrightarrow>
      spec_nonBlank (titleD b) \<and> spec_nonBlank (authorD b) \<and>
      spec_yearOk cy (yearD b) \<and> spec_isbnOk (isbnD b))"
  by (simp add: validateBook_eq)

section \<open>Pagination\<close>

text \<open>
  Claim C3. \<open>Lo\<close> and \<open>Mo\<close> are the limit and the offset of the request, as natural
  numbers, when the query carries them. With limit \<open>L\<close> and offset \<open>M\<close> (0 when
  absent) the response holds the slice \<open>[M, M + L)\<close> of the filtered books, that is
  \<open>min L (N - M)\<close> of them (the subtraction stops at 0), \<open>total\<close> is the filtered
  count \<open>N\<close> and \<open>count\<close> the length of the slice. With no limit all \<open>N\<close> are
  returned.
\<close>

theorem pagination:
  assumes "readBooks s = Inr books"
    and "case Lo of None \<Rightarrow> limitQ q = None
         | Some L \<Rightarrow> (\<exists>l. limitQ q = Some l \<and> parseInt l = Some (int L))"
    and "case Mo of None \<Rightarrow> offsetQ q = None
         | Some M \<Rightarrow> (\<exists>m. offsetQ q = Some m \<and> parseInt m = Some (int M))"
  shows "(let fb = applyFilters toNumber q books;
              N = length fb;
              M = (case Mo of None \<Rightarrow> 0 | Some M \<Rightarrow> M);
              page = (case Lo of None \<Rightarrow> fb | Some L \<Rightarrow> take L (drop M fb))
          in getBooks toNumber q s = (Response 200 (Books page N (length page)), s) \<and>
             length page = (case Lo of None \<Rightarrow> N | Some L \<Rightarrow> min L (N - M)))"
proof -
  define fb where "fb = applyFilters toNumber q books"
  define M where "M = (case Mo of None \<Rightarrow> 0 | Some M \<Rightarrow> M)"
  have ofs: "(case parseInt (paramString (offsetQ q)) of None \<Rightarrow> Some 0 | Some n \<Rightarrow> Some n)
               = Some (int M)"
    using assms(3) by (auto simp: M_def paramString_def parseInt_undefined split: option.splits)
  have pg: "paginate q fb = (case Lo of None \<Rightarrow> fb | Some L \<Rightarrow> take L (drop M fb))"
  proof (cases Lo)
    case None
    with assms(2) show ?thesis by (simp add: paginate_def)
  next
    case (Some L)
    with assms(2) obtain l where l: "limitQ q = Some l" "parseInt l = Some (int L)" by auto
    then have "l \<noteq> []" by (auto simp: parseInt_def)
    with l ofs Some show ?thesis
      by (simp add: paginate_def Let_def jsAdd_def sliceArr_nat)
  qed
  have "getBooks toNumber q s =
          (Response 200 (Books (paginate q fb) (length fb) (length (paginate q fb))), s)"
    using assms(1) by (simp add: getBooks_def Let_def fb_def)
  moreover have "length (paginate q fb) =
                   (case Lo of None \<Rightarrow> length fb | Some L \<Rightarrow> min L (length fb - M))"
    by (auto simp: pg split: option.splits)
  ultimately show ?thesis
    unfolding Let_def fb_def[symmetric] M_def[symmetric] pg by simp
qed

theorem pagination_witness:
  "readBooks (seedFs (\<lambda>k. k)) = Inr (sampleBooks (\<lambda>k. k)) \<and>
   parseInt ''2'' = Some 2 \<and> parseInt ''1'' = Some 1 \<and>
   getBooks (\<lambda>y. None)
     \<lparr>searchQ = None, genreQ = None, yearQ = None, authorQ = None,
      limitQ = Some ''2'', offsetQ = Some ''1''\<rparr> (seedFs (\<lambda>k. k)) =
     (Response 200 (Books (take 2 (drop 1 (sampleBooks (\<lambda>k. k)))) 4 2), seedFs (\<lambda>k. k))"
proof -
  let ?q = "\<lparr>searchQ = None, genreQ = None, yearQ = None, authorQ = None,
             limitQ = Some ''2'', offsetQ = Some ''1''\<rparr>"
  have r: "readBooks (seedFs (\<lambda>k. k)) = Inr (sampleBooks (\<lambda>k. k))"
    by (simp add: readBooks_eq seedFs_def)
  have p2: "parseInt ''2'' = Some 2" and p1: "parseInt ''1'' = Some 1"
    by code_simp+
  have l: "case Some (2::nat) of None \<Rightarrow> limitQ ?q = None
           | Some L \<Rightarrow> (\<exists>l. limitQ ?q = Some l \<and> parseInt l = Some (int L))"
    using p2 by simp
  have m: "case Some (1::nat) of None \<Rightarrow> offsetQ ?q = None
           | Some M \<Rightarrow> (\<exists>m. offsetQ ?q = Some m \<and> parseInt m = Some (int M))"
    using p1 by simp
  have f: "applyFilters (\<lambda>y. None) ?q (sampleBooks (\<lambda>k. k)) = sampleBooks (\<lambda>k. k)"
    by (simp add: applyFilters_def)
  have n: "length (sampleBooks (\<lambda>k. k)) = 4"
    by (simp add: sampleBooks_def)
  from pagination[OF r l m, of "\<lambda>y. None"] r p2 p1 show ?thesis
    by (simp add: f n Let_def)
qed

section \<open>Create, then fetch\<close>

text \<open>
  Claim C4, as stated: the record fetched after a create equals the input plus id,
  createdAt and updatedAt. It fails on the body with title " Dune" (a leading space),
  author "Frank Herbert" and no genre: the create answers 201, the fetch by the returned
  id answers the same record, and that record has the title "Dune" and the genre
  "Other", neither of which the input holds.
\<close>

theorem create_normalises_counterexample:
  "(case postBook 2026 (\<lambda>k. 100 + k) (titleAuthor '' Dune'' ''Frank Herbert'')
          (seedFs (\<lambda>k. k)) of
      (Response st (Book nb), s') \<Rightarrow>
        st = 201 \<and>
        (case getBookById (numToString (idB nb)) s' of
           (Response st' (Book fetched), s'') \<Rightarrow> st' = 200 \<and> fetched = nb \<and> s'' = s'
         | _ \<Rightarrow> False) \<and>
        title nb = ''Dune'' \<and> genre nb = ''Other'' \<and>
        \<not> equalsInput (titleAuthor '' Dune'' ''Frank Herbert'') nb
    | _ \<Rightarrow> False)"
  by code_simp

text \<open>
  Claim C4, amended: for a candidate that passes validation and the duplicate check, on a
  store that accepts the write and whose ids are all safe integers (below \<open>2^53\<close> in
  magnitude, where \<open>Math.max(...) + 1\<close> is exact and the new id is one no book has),
  the create answers 201 with a new record, and the fetch by the returned id answers 200
  with that same record. The record is the input
  normalised, plus the assigned fields: title and author trimmed, genre "Other" when the
  input has none, year null when the input has none, description and isbn trimmed or
  empty, the id from \<open>generateId\<close>, and both timestamps.
\<close>

theorem create_then_fetch:
  assumes "validateBook cy bookData = []"
    and "readBooks s = Inr books"
    and "titleD bookData = Some t" and "authorD bookData = Some a"
    and "find (sameTitleAuthor t a) books = None"
    and "writable s"
    and "list_all (\<lambda>b. isSafeInteger (idB b)) books"
  shows "\<exists>newBook s'.
           postBook cy clk bookData s = (Response 201 (Book newBook), s') \<and>
           getBookById (numToString (idB newBook)) s' = (Response 200 (Book newBook), s') \<and>
           newBook = \<lparr>idB = generateId books, title = trim t, author = trim a,
                      genre = genreOrOther (genreD bookData),
                      year = yearOrNull (yearD bookData),
                      description = trimOrEmpty (descriptionD bookData),
                      isbn = trimOrEmpty (isbnD bookData),
                      createdAt = clk 0, updatedAt = clk 1\<rparr>"
proof -
  define newBook where "newBook = \<lparr>idB = generateId books, title = trim t, author = trim a,
                      genre = genreOrOther (genreD bookData),
                      year = yearOrNull (yearD bookData),
                      description = trimOrEmpty (descriptionD bookData),
                      isbn = trimOrEmpty (isbnD bookData),
                      createdAt = clk 0, updatedAt = clk 1\<rparr>"
  define s' where "s' = s\<lparr>content := Stored (books @ [newBook]), writes := Suc (writes s)\<rparr>"
  have post: "postBook cy clk bookData s = (Response 201 (Book newBook), s')"
    using assms(1-6)
    by (simp add: postBook_def Let_def writeBooks_def writeFile_def newBook_def s'_def)
  have fresh: "\<forall>b \<in> set books. \<not> (Some (idB b) = Some (idB newBook))"
    using generateId_fresh by (fastforce simp: newBook_def)
  have "find (\<lambda>b. Some (idB b) = Some (idB newBook)) (books @ [newBook]) = Some newBook"
    by (rule find_append_new[OF fresh]) simp
  then have get: "getBookById (numToString (idB newBook)) s' = (Response 200 (Book newBook), s')"
    by (simp add: getBookById_def readBooks_eq s'_def parseInt_numToString)
  from post get show ?thesis
    unfolding newBook_def by blast
qed

theorem create_then_fetch_witness:
  "validateBook 2026 (titleAuthor '' Dune '' ''Frank Herbert'') = [] \<and>
   readBooks (seedFs (\<lambda>k. k)) = Inr (sampleBooks (\<lambda>k. k)) \<and>
   find (sameTitleAuthor '' Dune '' ''Frank Herbert'') (sampleBooks (\<lambda>k. k)) = None \<and>
   writable (seedFs (\<lambda>k. k)) \<and>
   list_all (\<lambda>b. isSafeInteger (idB b)) (sampleBooks (\<lambda>k. k)) \<and>
   (\<exists>newBook s'.
      postBook 2026 (\<lambda>k. 100 + k) (titleAuthor '' Dune '' ''Frank Herbert'') (seedFs (\<lambda>k. k)) =
        (Response 201 (Book newBook), s') \<and>
      getBookById (numToString (idB newBook)) s' = (Response 200 (Book newBook), s') \<and>
      newBook = \<lparr>idB = 5, title = ''Dune'', author = ''Frank Herbert'', genre = ''Other'',
                 year = None, description = [], isbn = [], createdAt = 100, updatedAt = 101\<rparr>)"
proof -
  have v: "validateBook 2026 (titleAuthor '' Dune '' ''Frank Herbert'') = []"
    by code_simp
  have r: "readBooks (seedFs (\<lambda>k. k)) = Inr (sampleBooks (\<lambda>k. k))"
    by (simp add: readBooks_eq seedFs_def)
  have t: "titleD (titleAuthor '' Dune '' ''Frank Herbert'') = Some '' Dune ''"
    and a: "authorD (titleAuthor '' Dune '' ''Frank Herbert'') = Some ''Frank Herbert''"
    by (simp_all add: titleAuthor_def)
  have d: "find (sameTitleAuthor '' Dune '' ''Frank Herbert'') (sampleBooks (\<lambda>k. k)) = None"
    by code_simp
  have w: "writable (seedFs (\<lambda>k. k))"
    by (simp add: seedFs_def)
  have i: "list_all (\<lambda>b. isSafeInteger (idB b)) (sampleBooks (\<lambda>k. k))"
    by code_simp
  have g: "generateId (sampleBooks (\<lambda>k. k)) = 5"
    by code_simp
  have tr: "trim '' Dune '' = ''Dune''" "trim ''Frank Herbert'' = ''Frank Herbert''"
    by code_simp+
  from create_then_fetch[OF v r t a d w i, of "\<lambda>k. 100 + k"] v r d w i show ?thesis
    by (simp add: g tr titleAuthor_def genreOrOther_def yearOrNull_def trimOrEmpty_def)
qed

section \<open>Bulk create\<close>

text \<open>
  The loop never throws: a candidate that passed \<open>validateBook\<close> has a title and an
  author. Every candidate ends in exactly one of the two result lists.
\<close>

lemma bulkLoop_Inr:
  "\<exists>books' res'. bulkLoop cy clk cs i books res = Inr (books', res') \<and>
     length (success res') + length (errorsR res') =
       length (success res) + length (errorsR res) + length cs"
proof (induction cs arbitrary: i books res)
  case Nil
  then show ?case by simp
next
  case (Cons c cs)
  show ?case
  proof (cases "validateBook cy c = []")
    case False
    with Cons[of "Suc i" books "res\<lparr>errorsR := errorsR res @ [(i, validateBook cy c)]\<rparr>"]
    show ?thesis by (auto simp: Let_def)
  next
    case True
    then obtain t a where ta: "titleD c = Some t" "authorD c = Some a"
      using validateBook_Nil_title by blast
    show ?thesis
    proof (cases "find (sameTitleAuthor t a) books")
      case (Some d)
      with True ta
        Cons[of "Suc i" books "res\<lparr>errorsR := errorsR res
               @ [(i, [''Book with same title and author already exists''])]\<rparr>"]
      show ?thesis by (auto simp: Let_def)
    next
      case None
      define nb where "nb = \<lparr>idB = generateId books, title = trim t, author = trim a,
          genre = genreOrOther (genreD c), year = yearOrNull (yearD c),
          description = trimOrEmpty (descriptionD c), isbn = trimOrEmpty (isbnD c),
          createdAt = clk (2 * length (success res)),
          updatedAt = clk (Suc (2 * length (success res)))\<rparr>"
      from True ta None Cons[of "Suc i" "books @ [nb]" "res\<lparr>success := success res @ [nb]\<rparr>"]
      show ?thesis by (auto simp: Let_def nb_def)
    qed
  qed
qed

text \<open>
  On a store that accepts writes a batch is answered 201 whatever failed in it, every
  candidate is reported once, and the store is written once when a candidate succeeded
  and not at all otherwise.
\<close>

lemma bulk_status_writes:
  assumes "writable s"
  shows "\<exists>res s'. postBulk cy clk (Some cs) s = (Response 201 (Bulk res), s') \<and>
           length (success res) + length (errorsR res) = length cs \<and>
           writes s' = writes s + (if success res = [] then 0 else 1)"
proof -
  obtain books where r: "readBooks s = Inr books"
    by (simp add: readBooks_eq)
  obtain books' res' where l: "bulkLoop cy clk cs 0 books \<lparr>success = [], errorsR = []\<rparr>
      = Inr (books', res')"
    and n: "length (success res') + length (errorsR res') = length cs"
    using bulkLoop_Inr[of cy clk cs 0 books "\<lparr>success = [], errorsR = []\<rparr>"] by auto
  show ?thesis
    using assms r l n by (auto simp: postBulk_def writeBooks_def writeFile_def)
qed

text \<open>
  The scenario of the specification, on an empty collection: the first candidate is
  stored, the second is invalid, the third duplicates the first in another letter case.
  One success, two errors tagged 1 and 2, one write.
\<close>

lemma bulk_scenario:
  "(case postBulk 2026 (\<lambda>k. 100 + k)
          (Some [titleAuthor ''Dune'' ''Frank Herbert'',
                 (titleAuthor ''Emma'' ''Jane Austen'')\<lparr>yearD := Some 999\<rparr>,
                 titleAuthor ''DUNE'' ''frank herbert''])
          \<lparr>content = Stored [], writable = True, writes = 0\<rparr> of
      (Response st (Bulk res), s') \<Rightarrow>
        st = 201 \<and>
        map title (success res) = [''Dune''] \<and>
        errorsR res = [(1, [''Year must be between 1000 and current year'']),
                       (2, [''Book with same title and author already exists''])] \<and>
        content s' = Stored (success res) \<and> writes s' = 1
    | _ \<Rightarrow> False)"
  by code_simp

text \<open>
  Claim C5. A later entry of a batch that duplicates an earlier successful entry is
  rejected. The code breaks this for an entry with whitespace around its title: the
  earlier entry is stored trimmed, the later one is compared as sent. A batch of twice
  the candidate with title " Dune" (a leading space) and author "Frank Herbert" is
  answered with two successes and no error, and the collection then holds the pair
  ("Dune", "Frank Herbert") twice. The defect is the one of claim C1.
\<close>

theorem bulk_duplicate_after_trim:
  "(case postBulk 2026 (\<lambda>k. 100 + k)
          (Some [titleAuthor '' Dune'' ''Frank Herbert'', titleAuthor '' Dune'' ''Frank Herbert''])
          (seedFs (\<lambda>k. k)) of
      (Response st (Bulk res), s') \<Rightarrow>
        st = 201 \<and> length (success res) = 2 \<and> errorsR res = [] \<and>
        map title (success res) = [''Dune'', ''Dune''] \<and>
        map author (success res) = [''Frank Herbert'', ''Frank Herbert''] \<and>
        (case content s' of Stored bs \<Rightarrow> length bs = 6 \<and> \<not> uniquePairs bs | _ \<Rightarrow> False)
    | _ \<Rightarrow> False)"
  by code_simp

section \<open>Update\<close>

text \<open>
  Claim C6. A successful update (status 200) found the book at some index \<open>i\<close> of the
  collection and stores the collection with that one entry replaced. The new entry has
  the id and the createdAt of the old one, its updatedAt is the time of the request, and
  every other entry is the one it was.
\<close>

theorem put_frame:
  assumes "status (fst (putBook cy clk idParam bookData s)) = 200"
  shows "\<exists>books i updated.
           content s = Stored books \<and> i < length books \<and>
           parseInt idParam = Some (idB (books ! i)) \<and>
           fst (putBook cy clk idParam bookData s) = Response 200 (Book updated) \<and>
           content (snd (putBook cy clk idParam bookData s)) = Stored (books[i := updated]) \<and>
           idB updated = idB (books ! i) \<and>
           createdAt updated = createdAt (books ! i) \<and>
           updatedAt updated = clk 0 \<and>
           (\<forall>j < length books. j \<noteq> i \<longrightarrow> books[i := updated] ! j = books ! j)"
  using assms
  apply (simp add: putBook_def Let_def readBooks_eq writeBooks_def writeFile_def
      split: if_splits option.splits booksFile.splits)
     apply (auto dest!: findIndex_Some)
  done

theorem put_frame_witness:
  "status (fst (putBook 2026 (\<lambda>k. 100 + k) ''2'' (titleAuthor ''Animal Farm'' ''George Orwell'')
                  (seedFs (\<lambda>k. k)))) = 200 \<and>
   (\<exists>books i updated.
      content (seedFs (\<lambda>k. k)) = Stored books \<and> i < length books \<and>
      parseInt ''2'' = Some (idB (books ! i)) \<and>
      fst (putBook 2026 (\<lambda>k. 100 + k) ''2'' (titleAuthor ''Animal Farm'' ''George Orwell'')
             (seedFs (\<lambda>k. k))) = Response 200 (Book updated) \<and>
      content (snd (putBook 2026 (\<lambda>k. 100 + k) ''2''
                      (titleAuthor ''Animal Farm'' ''George Orwell'') (seedFs (\<lambda>k. k)))) =
        Stored (books[i := updated]) \<and>
      idB updated = idB (books ! i) \<and>
      createdAt updated = createdAt (books ! i) \<and>
      updatedAt updated = (\<lambda>k. 100 + k) 0 \<and>
      (\<forall>j < length books. j \<noteq> i \<longrightarrow> books[i := updated] ! j = books ! j))"
proof -
  have h: "status (fst (putBook 2026 (\<lambda>k. 100 + k) ''2''
                          (titleAuthor ''Animal Farm'' ''George Orwell'') (seedFs (\<lambda>k. k)))) = 200"
    by code_simp
  show ?thesis
    by (rule conjI[OF h put_frame[OF h]])
qed

section \<open>The store's loadAll\<close>

text \<open>
  Claim C7. \<open>readBooks\<close> never fails: whatever the backing file, it returns a sequence.
  On a missing file and on an unparsable one the sequence is empty; on a file that holds
  an array of books it is that array.
\<close>

theorem readBooks_never_fails:
  "(\<exists>books. readBooks s = Inr books) \<and>
   readBooks (s\<lparr>content := Missing\<rparr>) = Inr [] \<and>
   readBooks (s\<lparr>content := Unparsable\<rparr>) = Inr [] \<and>
   readBooks (s\<lparr>content := Stored books\<rparr>) = Inr books"
  by (simp add: readBooks_eq)

section \<open>Statistics of the seeded collection\<close>

lemma bump_commute: "bump k (bump k' m) = bump k' (bump k m)"
  by (rule ext) (simp add: bump_def)

lemma countYear_commute: "countYear a \<circ> countYear b = countYear b \<circ> countYear a"
  by (rule ext) (simp add: countYear_def bump_commute split: option.splits)

lemma fold_countYear_sort:
  "fold countYear (sort_key f xs) m = fold countYear xs m"
proof -
  have "fold countYear (sort_key f xs) = fold countYear xs"
    by (rule fold_multiset_equiv) (simp_all add: countYear_commute)
  then show ?thesis by simp
qed

lemma decadeLabel_seed:
  "decadeLabel 1960 = ''1960s''" "decadeLabel 1949 = ''1940s''"
  "decadeLabel 1813 = ''1810s''" "decadeLabel 1925 = ''1920s''"
  by code_simp+

lemma yearDistribution_seed:
  "fold countYear (sampleBooks clk) Map.empty =
     [''1940s'' \<mapsto> 1, ''1810s'' \<mapsto> 1, ''1920s'' \<mapsto> 1, ''1960s'' \<mapsto> 1]"
  by (rule ext) (simp add: sampleBooks_def countYear_def decadeLabel_seed bump_def)

lemma countYear_apply:
  "countYear b m l =
     (if decadeOf b = Some l then Some ((case m l of None \<Rightarrow> 0 | Some c \<Rightarrow> c) + 1) else m l)"
  by (simp add: countYear_def decadeOf_def bump_def split: option.splits)

lemma fold_countYear_count:
  "fold countYear xs m l =
     (let n = length (filter (\<lambda>b. decadeOf b = Some l) xs)
      in case m l of None \<Rightarrow> (if n = 0 then None else Some n) | Some c \<Rightarrow> Some (c + n))"
proof (induction xs arbitrary: m)
  case Nil
  then show ?case by (simp split: option.splits)
next
  case (Cons b xs)
  have "fold countYear (b # xs) m l = fold countYear xs (countYear b m) l"
    by simp
  also have "\<dots> =
     (let n = length (filter (\<lambda>b. decadeOf b = Some l) xs)
      in case countYear b m l of None \<Rightarrow> (if n = 0 then None else Some n)
         | Some c \<Rightarrow> Some (c + n))"
    by (rule Cons.IH)
  also have "\<dots> =
     (let n = length (filter (\<lambda>b. decadeOf b = Some l) (b # xs))
      in case m l of None \<Rightarrow> (if n = 0 then None else Some n) | Some c \<Rightarrow> Some (c + n))"
    by (cases "decadeOf b = Some l") (simp_all add: countYear_apply Let_def split: option.splits)
  finally show ?case .
qed

text \<open>
  Claim C8. On the seeded collection, whatever the clock read when the four books were
  written, the statistics are 4 books, 4 authors, 3 genres, and one book in each of the
  decades 1940s, 1810s, 1920s and 1960s. On any collection the year distribution holds,
  under each label, the number of books with a truthy year and that decade label, and has
  no entry for a label that no book has; the label of a year is made of
  \<open>floor(year / 10) * 10\<close> and the letter s.
\<close>

theorem stats_seed:
  "(\<exists>st. getStats (seedFs clk) = (Response 200 (Stats st), seedFs clk) \<and>
         totalBooks st = 4 \<and> totalAuthors st = 4 \<and> totalGenres st = 3 \<and>
         yearDistribution st =
           [''1940s'' \<mapsto> 1, ''1810s'' \<mapsto> 1, ''1920s'' \<mapsto> 1, ''1960s'' \<mapsto> 1]) \<and>
   (\<exists>st. getStats (s\<lparr>content := Stored books\<rparr>) =
           (Response 200 (Stats st), s\<lparr>content := Stored books\<rparr>) \<and>
         yearDistribution st l =
           (let n = length (filter (\<lambda>b. decadeOf b = Some l) books)
            in if n = 0 then None else Some n)) \<and>
   decadeLabel y = numToString (y div 10 * 10) @ ''s''"
proof -
  have a: "length (remdups (map author (sampleBooks clk))) = 4"
    by (simp add: sampleBooks_def)
  have g: "length (remdups (map genre (sampleBooks clk))) = 3"
    by (simp add: sampleBooks_def)
  have n: "length (sampleBooks clk) = 4"
    by (simp add: sampleBooks_def)
  have seed: "\<exists>st. getStats (seedFs clk) = (Response 200 (Stats st), seedFs clk) \<and>
         totalBooks st = 4 \<and> totalAuthors st = 4 \<and> totalGenres st = 3 \<and>
         yearDistribution st =
           [''1940s'' \<mapsto> 1, ''1810s'' \<mapsto> 1, ''1920s'' \<mapsto> 1, ''1960s'' \<mapsto> 1]"
    by (simp add: getStats_def readBooks_eq seedFs_def Let_def a g n fold_countYear_sort
        yearDistribution_seed)
  have gen: "\<exists>st. getStats (s\<lparr>content := Stored books\<rparr>) =
           (Response 200 (Stats st), s\<lparr>content := Stored books\<rparr>) \<and>
         yearDistribution st l =
           (let n = length (filter (\<lambda>b. decadeOf b = Some l) books)
            in if n = 0 then None else Some n)"
    by (simp add: getStats_def readBooks_eq Let_def fold_countYear_sort fold_countYear_count)
  have "decadeLabel y = numToString (y div 10 * 10) @ ''s''"
    by (simp add: decadeLabel_def)
  with seed gen show ?thesis by blast
qed

section \<open>Read-only endpoints\<close>

text \<open>
  Claim C9. The five read-only endpoints leave the store as they found it: the file, and
  the count of writes.
\<close>

theorem read_only:
  "snd (getBooks toNumber q s) = s \<and> snd (getBookById idParam s) = s \<and>
   snd (getStats s) = s \<and> snd (getGenres s) = s \<and> snd (getAuthors s) = s"
  by (simp add: getBooks_def getBookById_def getStats_def getGenres_def getAuthors_def
      readBooks_eq Let_def split: option.splits)

section \<open>The id path segment\<close>

text \<open>
  Claim C10, as stated: a segment made of a leading integer and other characters is taken
  as that integer's id, and a segment with no leading integer gives NaN and with it a 404
  from GET, PUT and DELETE. It fails twice. The segment "0x1A" has the leading integer 0,
  yet \<open>parseInt\<close> reads it in radix 16 as 26: on a collection holding a book with id
  26 the GET answers 200 with that book, where the segment "0" answers 404. And a PUT
  validates the body before it looks the id up: with the segment "abc" and a body that
  has no title it answers 400.
\<close>

theorem id_segment_counterexample:
  "parseInt ''0x1A'' = Some 26 \<and>
   (case getBookById ''0x1A''
           \<lparr>content = Stored [(hd (sampleBooks (\<lambda>k. k)))\<lparr>idB := 26\<rparr>],
            writable = True, writes = 0\<rparr> of
      (Response st (Book b), s') \<Rightarrow> st = 200 \<and> idB b = 26
    | _ \<Rightarrow> False) \<and>
   status (fst (getBookById ''0''
           \<lparr>content = Stored [(hd (sampleBooks (\<lambda>k. k)))\<lparr>idB := 26\<rparr>],
            writable = True, writes = 0\<rparr>)) = 404 \<and>
   parseInt ''abc'' = None \<and>
   (case putBook 2026 (\<lambda>k. 100 + k) ''abc'' (titleAuthor [] ''Frank Herbert'')
           (seedFs (\<lambda>k. k)) of
      (Response st (Errors es), s') \<Rightarrow> st = 400 \<and> es = [''Title is required'']
    | _ \<Rightarrow> False)"
  by code_simp

text \<open>
  Claim C10, amended. The id segment is read by \<open>parseInt\<close>. A segment made of
  optional whitespace, an optional sign, decimal digits and a rest that does not go on
  with a digit is read as the signed decimal value of the digits, provided that value is
  a safe integer (below \<open>2^53\<close>; a longer run of digits is rounded to a double), and
  unless the digits are the single 0 and the rest starts with x or X (the radix-16
  prefix). A segment with no leading integer is read as NaN. A segment read as a safe
  integer \<open>n\<close> is handled by GET, PUT and DELETE as the segment that is the decimal
  numeral of \<open>n\<close>. A segment read as NaN matches no book: GET and DELETE answer 404,
  PUT answers 404 once the body has passed validation and 400 with the validation errors
  otherwise; for a request body typed as in the data model (string fields, an integer
  year, each possibly missing) none answers 500, and the store is left as it was.
\<close>

theorem id_segment:
  "(list_all isWhiteSpace ws \<and> sg \<in> {[], ''+'', ''-''} \<and> ds \<noteq> [] \<and> list_all isDigit ds \<and>
    (rest = [] \<or> \<not> isDigit (hd rest)) \<and>
    \<not> (ds = ''0'' \<and> (startsWith rest ''x'' \<or> startsWith rest ''X'')) \<and>
    isSafeInteger (int (radixValue 10 ds)) \<longrightarrow>
      parseInt (ws @ sg @ ds @ rest) =
        Some ((if sg = ''-'' then - 1 else 1) * int (radixValue 10 ds))) \<and>
   (\<not> hasLeadingInteger seg \<longrightarrow> parseInt seg = None) \<and>
   (parseInt seg = Some n \<and> isSafeInteger n \<longrightarrow>
      getBookById seg s = getBookById (numToString n) s \<and>
      deleteBook seg s = deleteBook (numToString n) s \<and>
      putBook cy clk seg bookData s = putBook cy clk (numToString n) bookData s) \<and>
   (parseInt seg = None \<longrightarrow>
      getBookById seg s = (Response 404 (Error ''Book not found''), s) \<and>
      deleteBook seg s = (Response 404 (Error ''Book not found''), s) \<and>
      putBook cy clk seg bookData s =
        (if validateBook cy bookData = [] then (Response 404 (Error ''Book not found''), s)
         else (Response 400 (Errors (validateBook cy bookData)), s)))"
proof (intro conjI impI)
  assume "list_all isWhiteSpace ws \<and> sg \<in> {[], ''+'', ''-''} \<and> ds \<noteq> [] \<and>
    list_all isDigit ds \<and> (rest = [] \<or> \<not> isDigit (hd rest)) \<and>
    \<not> (ds = ''0'' \<and> (startsWith rest ''x'' \<or> startsWith rest ''X'')) \<and>
    isSafeInteger (int (radixValue 10 ds))"
  then show "parseInt (ws @ sg @ ds @ rest) =
        Some ((if sg = ''-'' then - 1 else 1) * int (radixValue 10 ds))"
    by (intro parseInt_leading) simp_all
next
  assume "\<not> hasLeadingInteger seg"
  then show "parseInt seg = None"
    using parseInt_Some_leading by (cases "parseInt seg") auto
next
  assume "parseInt seg = Some n \<and> isSafeInteger n"
  then have p: "parseInt seg = Some n" by simp
  show "getBookById seg s = getBookById (numToString n) s"
    by (simp add: getBookById_def readBooks_eq p parseInt_numToString)
  show "deleteBook seg s = deleteBook (numToString n) s"
    by (simp add: deleteBook_def readBooks_eq p parseInt_numToString)
  show "putBook cy clk seg bookData s = putBook cy clk (numToString n) bookData s"
    by (simp add: putBook_def readBooks_eq p parseInt_numToString)
next
  assume p: "parseInt seg = None"
  show "getBookById seg s = (Response 404 (Error ''Book not found''), s)"
    by (simp add: getBookById_def p readBooks_eq find_never)
  show "deleteBook seg s = (Response 404 (Error ''Book not found''), s)"
    by (simp add: deleteBook_def p readBooks_eq findIndex_never)
  show "putBook cy clk seg bookData s =
        (if validateBook cy bookData = [] then (Response 404 (Error ''Book not found''), s)
         else (Response 400 (Errors (validateBook cy bookData)), s))"
    by (simp add: putBook_def p readBooks_eq findIndex_never Let_def)
qed

theorem id_segment_witness:
  "isSafeInteger 3 \<and> parseInt ''3abc'' = Some 3 \<and>
   getBookById ''3abc'' (seedFs (\<lambda>k. k)) = getBookById ''3'' (seedFs (\<lambda>k. k)) \<and>
   deleteBook ''3abc'' (seedFs (\<lambda>k. k)) = deleteBook ''3'' (seedFs (\<lambda>k. k)) \<and>
   \<not> hasLeadingInteger ''abc'' \<and> parseInt ''abc'' = None \<and>
   getBookById ''abc'' (seedFs (\<lambda>k. k)) =
     (Response 404 (Error ''Book not found''), seedFs (\<lambda>k. k)) \<and>
   deleteBook ''abc'' (seedFs (\<lambda>k. k)) =
     (Response 404 (Error ''Book not found''), seedFs (\<lambda>k. k)) \<and>
   putBook 2026 (\<lambda>k. 100 + k) ''abc'' (titleAuthor ''Animal Farm'' ''George Orwell'')
       (seedFs (\<lambda>k. k)) =
     (Response 404 (Error ''Book not found''), seedFs (\<lambda>k. k))"
proof -
  have hyp: "list_all isWhiteSpace [] \<and> [] \<in> {[], ''+'', ''-''} \<and> ''3'' \<noteq> [] \<and>
             list_all isDigit ''3'' \<and> (''abc'' = [] \<or> \<not> isDigit (hd ''abc'')) \<and>
             \<not> (''3'' = ''0'' \<and> (startsWith ''abc'' ''x'' \<or> startsWith ''abc'' ''X''))"
    by (simp add: isDigit_def)
  have rv: "radixValue 10 ''3'' = 3" by code_simp
  have sf: "isSafeInteger 3" by (simp add: isSafeInteger_def)
  have n3: "numToString 3 = ''3''" by code_simp
  have nl: "\<not> hasLeadingInteger ''abc''" by code_simp
  have v: "validateBook 2026 (titleAuthor ''Animal Farm'' ''George Orwell'') = []"
    by code_simp
  note a = id_segment[of "[]" "[]" "''3''" "''abc''" "''3abc''" 3 "seedFs (\<lambda>k. k)"]
  note b = id_segment[of "[]" "[]" "''3''" "''abc''" "''abc''" 3 "seedFs (\<lambda>k. k)" 2026
      "\<lambda>k. 100 + k" "titleAuthor ''Animal Farm'' ''George Orwell''"]
  from a hyp rv sf have p: "parseInt ''3abc'' = Some 3" by simp
  from b nl have q: "parseInt ''abc'' = None" by blast
  from a p sf n3 b q nl v show ?thesis by simp
qed

end
